theory Spec2Isabelle
  imports Complex_Main "HOL-Library.Sublist"
begin

section \<open>Numeric arrays\<close>

text \<open>
  The operators of \<open>muspinsim/spinop.py\<close> carry a numpy array of complex numbers.
  A two-dimensional array is modelled as the list of its rows. Entries are exact complex
  numbers: unless a statement says otherwise, the rounding of IEEE double arithmetic is
  not part of this model, and a statement is about the exact value of the arithmetic
  expression the code writes. The one place where rounding is modelled is the product of
  entries in \<open>np.kron\<close>, for the question whether \<open>kron\<close> is associative for \<open>==\<close>.
\<close>

type_synonym cvec = "complex list"
type_synonym cmat = "complex list list"

text \<open>\<open>shape[0]\<close> and \<open>shape[1]\<close> of a two-dimensional array.\<close>

definition nrows :: "cmat \<Rightarrow> nat" where
  "nrows M = length M"

definition ncols :: "cmat \<Rightarrow> nat" where
  "ncols M = length (hd M)"

text \<open>
  A list of rows is a two-dimensional array when it has a row and all rows have one
  length. \<open>np.array([])\<close> is one-dimensional, so reading \<open>shape[1]\<close> of it raises.
\<close>

definition is_2d :: "cmat \<Rightarrow> bool" where
  "is_2d M = (M \<noteq> [] \<and> list_all (\<lambda>r. length r = length (hd M)) M)"

text \<open>\<open>M.T\<close>, \<open>M.conj()\<close>, \<open>-M\<close>, and the elementwise operations with broadcasting of a scalar.\<close>

definition mat_T :: "cmat \<Rightarrow> cmat" where
  "mat_T M = map (\<lambda>j. map (\<lambda>r. r ! j) M) [0..<ncols M]"

definition mat_conj :: "cmat \<Rightarrow> cmat" where
  "mat_conj M = map (map cnj) M"


definition mat_add :: "cmat \<Rightarrow> cmat \<Rightarrow> cmat" where
  "mat_add A B = map2 (map2 (+)) A B"

definition mat_sub :: "cmat \<Rightarrow> cmat \<Rightarrow> cmat" where
  "mat_sub A B = map2 (map2 (-)) A B"

definition mat_mul_elem :: "cmat \<Rightarrow> cmat \<Rightarrow> cmat" where
  "mat_mul_elem A B = map2 (map2 (*)) A B"

definition mat_scale :: "cmat \<Rightarrow> complex \<Rightarrow> cmat" where
  "mat_scale M x = map (map (\<lambda>a. a * x)) M"

definition mat_div :: "cmat \<Rightarrow> complex \<Rightarrow> cmat" where
  "mat_div M x = map (map (\<lambda>a. a / x)) M"

text \<open>\<open>np.sum\<close> of all entries, \<open>np.trace\<close>, \<open>np.eye\<close>, \<open>np.diag\<close> in both directions.\<close>

definition mat_sum :: "cmat \<Rightarrow> complex" where
  "mat_sum M = sum_list (map sum_list M)"

definition np_trace :: "cmat \<Rightarrow> complex" where
  "np_trace M = (\<Sum>i\<leftarrow>[0..<min (nrows M) (ncols M)]. M ! i ! i)"

definition np_eye :: "nat \<Rightarrow> cmat" where
  "np_eye n = map (\<lambda>i. map (\<lambda>j. if i = j then 1 else 0) [0..<n]) [0..<n]"

definition np_diag :: "cvec \<Rightarrow> cmat" where
  "np_diag v = map (\<lambda>i. map (\<lambda>j. if i = j then v ! i else 0) [0..<length v]) [0..<length v]"

text \<open>\<open>np.diag(v, k=1)\<close>: the vector on the first superdiagonal of a square matrix one larger.\<close>

definition np_diag_k1 :: "cvec \<Rightarrow> cmat" where
  "np_diag_k1 v =
     map (\<lambda>i. map (\<lambda>j. if j = Suc i then v ! i else 0) [0..<Suc (length v)]) [0..<Suc (length v)]"

definition diag_of :: "cmat \<Rightarrow> cvec" where
  "diag_of M = map (\<lambda>i. M ! i ! i) [0..<min (nrows M) (ncols M)]"

text \<open>\<open>np.dot\<close> of two matrices and \<open>np.kron\<close>.\<close>

definition np_dot :: "cmat \<Rightarrow> cmat \<Rightarrow> cmat" where
  "np_dot A B = map (\<lambda>r. map (\<lambda>j. \<Sum>k\<leftarrow>[0..<length r]. r ! k * B ! k ! j) [0..<ncols B]) A"

definition vec_kron :: "cvec \<Rightarrow> cvec \<Rightarrow> cvec" where
  "vec_kron u v = concat (map (\<lambda>a. map (\<lambda>b. a * b) v) u)"

definition np_kron :: "cmat \<Rightarrow> cmat \<Rightarrow> cmat" where
  "np_kron A B = concat (map (\<lambda>ra. map (\<lambda>rb. vec_kron ra rb) B) A)"

section \<open>Errors and Python values\<close>

text \<open>
  Every \<open>raise\<close> of the source is one constructor. The source raises \<open>ValueError\<close> with
  different messages; the constructors carry the names the specification gives them:
  \<^item> \<open>InvalidShapeError\<close>: "Matrix passed to Operator must be square", "Dimensions are not
    compatible with matrix";
  \<^item> \<open>IncompatibleDimensionError\<close>: the \<open>ArithmeticError\<close> of the arithmetic operators and
    "SpinOperator and DensityOperator do not have compatible dimensions";
  \<^item> \<open>NotOperatorError\<close>: "Can only perform Kronecker product with another Operator";
  \<^item> \<open>EmptyInputError\<close>: "Arrays of moments and axes must have same length > 0";
  \<^item> \<open>InvalidSpinError\<close>: "... is not a valid spin value";
  \<^item> \<open>InvalidAxisError\<close>: "... is not a valid spin axis", "muon_axis must be a vector or x, y
    or z";
  \<^item> \<open>InvalidVectorError\<close>: "... is not a valid 3D vector";
  \<^item> \<open>InvalidGammaError\<close>: "... is not a valid gamma value";
  \<^item> \<open>ZeroTraceError\<close>: "Can not define a DensityOperator with zero trace";
  \<^item> \<open>NonHermitianError\<close>: "DensityOperator must be hermitian!";
  \<^item> \<open>TypeError\<close>, \<open>IndexError\<close>, \<open>KeyError\<close>, \<open>ZeroDivisionError\<close>: the Python exceptions;
  \<^item> \<open>NumpyValueError\<close>: a \<open>ValueError\<close> raised inside numpy (bad axis, bad weights, ragged
    input, empty array);
  \<^item> \<open>NanError\<close>: the failure of a computation whose input holds NaN.
\<close>

datatype error =
    InvalidShapeError
  | IncompatibleDimensionError
  | NotOperatorError
  | EmptyInputError
  | InvalidSpinError
  | InvalidAxisError
  | InvalidVectorError
  | InvalidGammaError
  | ZeroTraceError
  | NonHermitianError
  | TypeError
  | IndexError
  | KeyError
  | ZeroDivisionError
  | NumpyValueError
  | NanError

text \<open>The classes of \<open>spinop.py\<close>: \<open>SpinOperator\<close> and \<open>DensityOperator\<close> extend \<open>Operator\<close>.\<close>

datatype cls = OperatorC | SpinOperatorC | DensityOperatorC

record operator =
  cls :: cls
  dim :: "nat list"
  matrix :: cmat

text \<open>What a method can be handed: an operator, a number, or any other object.\<close>

datatype pyval = PyOperator operator | PyNumber complex | PyOther

section \<open>Operator\<close>

text \<open>
  \<open>Operator.__init__\<close>, run for the class \<open>c\<close> being constructed. \<open>np.prod\<close> of the
  dimension tuple is compared with \<open>shape[0]\<close>.
\<close>

definition Operator_init :: "cls \<Rightarrow> cmat \<Rightarrow> nat list option \<Rightarrow> error + operator" where
  "Operator_init c M d =
     (if \<not> is_2d M then Inl IndexError
      else if \<not> (nrows M = ncols M) then Inl InvalidShapeError
      else (case d of
              None \<Rightarrow> Inr \<lparr>cls = c, dim = [nrows M], matrix = M\<rparr>
            | Some ds \<Rightarrow>
                if prod_list ds \<noteq> nrows M then Inl InvalidShapeError
                else Inr \<lparr>cls = c, dim = ds, matrix = M\<rparr>))"

definition is_hermitian :: "operator \<Rightarrow> bool" where
  "is_hermitian self = (matrix self = mat_T (mat_conj (matrix self)))"

definition clone :: "operator \<Rightarrow> operator" where
  "clone self = \<lparr>cls = cls self, dim = dim self, matrix = matrix self\<rparr>"

text \<open>
  The arithmetic methods. Each tests \<open>isinstance(x, Operator)\<close>, then
  \<open>isinstance(x, Number)\<close>, and raises \<open>TypeError\<close> for anything else. The result is a
  clone of \<open>self\<close>, so it has the class of \<open>self\<close>.
\<close>

definition Operator_add :: "operator \<Rightarrow> pyval \<Rightarrow> error + operator" where
  "Operator_add self x =
     (case x of
        PyOperator y \<Rightarrow>
          if dim self \<noteq> dim y then Inl IncompatibleDimensionError
          else Inr ((clone self)\<lparr>matrix := mat_add (matrix self) (matrix y)\<rparr>)
      | PyNumber z \<Rightarrow>
          Inr ((clone self)\<lparr>matrix :=
                 mat_add (matrix self) (mat_scale (np_eye (nrows (matrix self))) z)\<rparr>)
      | PyOther \<Rightarrow> Inl TypeError)"

definition Operator_sub :: "operator \<Rightarrow> pyval \<Rightarrow> error + operator" where
  "Operator_sub self x =
     (case x of
        PyOperator y \<Rightarrow>
          if dim self \<noteq> dim y then Inl IncompatibleDimensionError
          else Inr ((clone self)\<lparr>matrix := mat_sub (matrix self) (matrix y)\<rparr>)
      | PyNumber z \<Rightarrow> Operator_add self (PyNumber (- z))
      | PyOther \<Rightarrow> Inl TypeError)"

definition Operator_mul :: "operator \<Rightarrow> pyval \<Rightarrow> error + operator" where
  "Operator_mul self x =
     (case x of
        PyOperator y \<Rightarrow>
          if dim self \<noteq> dim y then Inl IncompatibleDimensionError
          else Inr ((clone self)\<lparr>matrix := np_dot (matrix self) (matrix y)\<rparr>)
      | PyNumber z \<Rightarrow> Inr ((clone self)\<lparr>matrix := mat_scale (matrix self) z\<rparr>)
      | PyOther \<Rightarrow> Inl TypeError)"

text \<open>\<open>x * self\<close> for an \<open>x\<close> that does not handle the product itself.\<close>

definition Operator_rmul :: "operator \<Rightarrow> pyval \<Rightarrow> error + operator" where
  "Operator_rmul self x =
     (case x of
        PyNumber z \<Rightarrow> Operator_mul self (PyNumber z)
      | PyOperator y \<Rightarrow> Operator_mul y (PyOperator self)
      | PyOther \<Rightarrow> Inl TypeError)"

text \<open>\<open>1.0/x\<close> raises \<open>ZeroDivisionError\<close> for a Python number that is zero.\<close>

definition Operator_truediv :: "operator \<Rightarrow> pyval \<Rightarrow> error + operator" where
  "Operator_truediv self x =
     (case x of
        PyNumber z \<Rightarrow>
          if z = 0 then Inl ZeroDivisionError else Operator_mul self (PyNumber (1 / z))
      | PyOperator y \<Rightarrow> Inl TypeError
      | PyOther \<Rightarrow> Inl TypeError)"

text \<open>\<open>__eq__\<close>: the dimension tuples, then \<open>np.all\<close> of the entrywise comparison.\<close>

definition Operator_eq :: "operator \<Rightarrow> pyval \<Rightarrow> bool" where
  "Operator_eq self x =
     (case x of
        PyOperator y \<Rightarrow>
          if dim self \<noteq> dim y then False else matrix self = matrix y
      | PyNumber z \<Rightarrow> False
      | PyOther \<Rightarrow> False)"


section \<open>SpinOperator\<close>

text \<open>
  Spin values are Python floats, modelled as reals. \<open>I % 0.5\<close> is Python's floored
  modulo, \<open>int(x)\<close> truncates towards zero, \<open>np.linspace(a, b, n)\<close> gives \<open>n\<close> evenly
  spaced values from \<open>a\<close> to \<open>b\<close>, \<open>np.cumsum\<close> the running sums.
\<close>

definition py_mod :: "real \<Rightarrow> real \<Rightarrow> real" where
  "py_mod x y = x - y * of_int \<lfloor>x / y\<rfloor>"

definition py_int :: "real \<Rightarrow> int" where
  "py_int x = (if 0 \<le> x then \<lfloor>x\<rfloor> else \<lceil>x\<rceil>)"

definition np_linspace :: "real \<Rightarrow> real \<Rightarrow> nat \<Rightarrow> real list" where
  "np_linspace a b n =
     (if n = 1 then [a]
      else map (\<lambda>k. a + of_nat k * ((b - a) / of_nat (n - 1))) [0..<n])"

fun np_cumsum :: "real list \<Rightarrow> real list" where
  "np_cumsum [] = []"
| "np_cumsum (x # xs) = x # map (\<lambda>y. x + y) (np_cumsum xs)"

text \<open>The single-spin matrices \<open>_Sp\<close>, \<open>_Sm\<close>, \<open>_Sx\<close>, \<open>_Sy\<close>, \<open>_Sz\<close>, \<open>_S0\<close>.\<close>

definition Sp :: "real list \<Rightarrow> cmat" where
  "Sp mvals =
     np_diag_k1 (map (\<lambda>c. of_real (1 / 2 * sqrt c)) (butlast (np_cumsum (map (\<lambda>m. 2 * m) mvals))))"

definition Sm :: "real list \<Rightarrow> cmat" where
  "Sm mvals = mat_T (Sp mvals)"

definition Sx :: "real list \<Rightarrow> cmat" where
  "Sx mvals = (let o' = Sp mvals in mat_add o' (mat_T o'))"

definition Sy :: "real list \<Rightarrow> cmat" where
  "Sy mvals = (let o' = Sp mvals in map (map (\<lambda>a. \<i> * a)) (mat_sub (mat_T o') o'))"

definition Sz :: "real list \<Rightarrow> cmat" where
  "Sz mvals = np_diag (map of_real mvals)"

definition S0 :: "real list \<Rightarrow> cmat" where
  "S0 mvals = np_eye (length mvals)"

text \<open>
  The dictionary of \<open>from_axes\<close>, looked up with the axis label. The test before it is
  \<open>axis in 'xyz+-0'\<close>, which for strings is the substring test: a label such as \<open>'xy'\<close>
  passes it and then fails the lookup with \<open>KeyError\<close>.
\<close>

definition axis_table :: "(string \<times> (real list \<Rightarrow> cmat)) list" where
  "axis_table = [(''x'', Sx), (''y'', Sy), (''z'', Sz), (''+'', Sp), (''-'', Sm), (''0'', S0)]"

text \<open>The loop of \<open>from_axes\<close> over \<open>zip(Is, axes)\<close>; it stops at the first \<open>raise\<close>.\<close>

fun from_axes_matrices :: "(real \<times> string) list \<Rightarrow> error + cmat list" where
  "from_axes_matrices [] = Inr []"
| "from_axes_matrices ((I, axis) # rest) =
     (if py_mod I (1 / 2) \<noteq> 0 \<or> I < 1 / 2 then Inl InvalidSpinError
      else if \<not> sublist axis ''xyz+-0'' then Inl InvalidAxisError
      else (case map_of axis_table axis of
              None \<Rightarrow> Inl KeyError
            | Some S \<Rightarrow>
                (case from_axes_matrices rest of
                   Inl e \<Rightarrow> Inl e
                 | Inr ms \<Rightarrow>
                     Inr (S (np_linspace I (- I) (nat (py_int (2 * I + 1)))) # ms))))"

text \<open>
  \<open>SpinOperator.from_axes\<close>. A bare number for \<open>Is\<close> is wrapped into a one-element list;
  a Python string for \<open>axes\<close> is the list of its one-character strings. The dimension tuple
  is computed before the loop and used after it, when every \<open>2*I+1\<close> is positive.
\<close>

definition from_axes :: "real list \<Rightarrow> string list \<Rightarrow> error + operator" where
  "from_axes Is axes =
     (if length Is \<noteq> length axes \<or> length Is = 0 then Inl EmptyInputError
      else (let d = map (\<lambda>I. nat (py_int (2 * I + 1))) Is
            in case from_axes_matrices (zip Is axes) of
                 Inl e \<Rightarrow> Inl e
               | Inr matrices \<Rightarrow>
                   Operator_init SpinOperatorC (foldl np_kron (hd matrices) (tl matrices)) (Some d)))"

section \<open>DensityOperator\<close>

definition trace :: "operator \<Rightarrow> complex" where
  "trace self = np_trace (matrix self)"

definition normalize :: "operator \<Rightarrow> operator" where
  "normalize self = self\<lparr>matrix := mat_div (matrix self) (trace self)\<rparr>"

text \<open>
  \<open>DensityOperator.__init__\<close>: the constructor of \<open>Operator\<close>, the zero-trace check, the
  division by the trace, the check of Hermiticity, in this order.
\<close>

definition DensityOperator_init :: "cmat \<Rightarrow> nat list option \<Rightarrow> error + operator" where
  "DensityOperator_init M d =
     (case Operator_init DensityOperatorC M d of
        Inl e \<Rightarrow> Inl e
      | Inr self \<Rightarrow>
          if np_trace (matrix self) = 0 then Inl ZeroTraceError
          else (let self' = normalize self
                in if \<not> is_hermitian self' then Inl NonHermitianError else Inr self'))"

text \<open>
  \<open>partial_trace\<close>. The matrix is reshaped to the tensor of shape \<open>dim + dim\<close> (row-major),
  \<open>np.sum\<close> runs over the axes \<open>tracedim\<close> and \<open>tracedim + len(dim)\<close>, and the result is
  reshaped to \<open>(np.prod(ans._dim), -1)\<close>. \<open>unravel\<close> is the multi-index of a flat index.
  The subsystem indices are natural numbers (Python's negative indices are not modelled).
  numpy rejects an axis out of range and a repeated axis; \<open>np.prod(())\<close> is the float
  \<open>1.0\<close>, which \<open>reshape\<close> refuses with \<open>TypeError\<close>. The result is made by \<open>__new__\<close>:
  the constructor of \<open>DensityOperator\<close> does not run.
\<close>

fun unravel :: "nat list \<Rightarrow> nat \<Rightarrow> nat list" where
  "unravel [] r = []"
| "unravel (d # ds) r = (r div prod_list ds) # unravel ds (r mod prod_list ds)"

definition summed_entry :: "nat list \<Rightarrow> nat list \<Rightarrow> cmat \<Rightarrow> nat \<Rightarrow> nat \<Rightarrow> complex" where
  "summed_entry ds keep M R C =
     (let kd = map (\<lambda>i. ds ! i) keep; D = prod_list ds
      in (\<Sum>r\<leftarrow>[0..<D]. \<Sum>c\<leftarrow>[0..<D].
            if map (\<lambda>i. unravel ds r ! i) keep = unravel kd R \<and>
               map (\<lambda>i. unravel ds c ! i) keep = unravel kd C
            then M ! r ! c else 0))"

definition partial_trace :: "operator \<Rightarrow> nat list \<Rightarrow> error + operator" where
  "partial_trace self tracedim =
     (let n = length (dim self);
          axsum = tracedim @ map (\<lambda>t. t + n) tracedim;
          D = prod_list (dim self)
      in if length (concat (matrix self)) \<noteq> D * D then Inl NumpyValueError
         else if list_ex (\<lambda>a. 2 * n \<le> a) axsum then Inl NumpyValueError
         else if \<not> distinct axsum then Inl NumpyValueError
         else (let keep = filter (\<lambda>i. i \<notin> set tracedim) [0..<n];
                   ans_dim = map (\<lambda>i. dim self ! i) keep;
                   D' = prod_list ans_dim
               in if ans_dim = [] then Inl TypeError
                  else Inr \<lparr>cls = DensityOperatorC, dim = ans_dim,
                            matrix = map (\<lambda>R. map (\<lambda>C. summed_entry (dim self) keep (matrix self) R C)
                                                [0..<D']) [0..<D']\<rparr>))"

text \<open>
  \<open>expectation\<close>: the test of the class, the test of the dimension tuples, then the sum
  of the entrywise product with the transpose. The sum is returned as numpy computes it,
  a complex number.
\<close>

definition expectation :: "operator \<Rightarrow> pyval \<Rightarrow> error + complex" where
  "expectation self x =
     (case x of
        PyOperator y \<Rightarrow>
          if cls y \<noteq> SpinOperatorC then Inl TypeError
          else if \<not> (dim y = dim self) then Inl IncompatibleDimensionError
          else Inr (mat_sum (mat_mul_elem (matrix y) (mat_T (matrix self))))
      | PyNumber z \<Rightarrow> Inl TypeError
      | PyOther \<Rightarrow> Inl TypeError)"

text \<open>
  The invariant of an \<open>Operator\<close>: its matrix is square, with the product of the dimension
  tuple as its side.
\<close>

definition square :: "nat \<Rightarrow> cmat \<Rightarrow> bool" where
  "square n M = (length M = n \<and> list_all (\<lambda>r. length r = n) M)"

definition wf_operator :: "operator \<Rightarrow> bool" where
  "wf_operator x = (0 < prod_list (dim x) \<and> square (prod_list (dim x)) (matrix x))"

text \<open>
  The spin values the check \<open>I % 0.5 or I < 0.5\<close> lets through: the multiples of 1/2 from
  1/2 on. The axis labels of the dictionary.
\<close>

definition valid_spin :: "real \<Rightarrow> bool" where
  "valid_spin I = (1 / 2 \<le> I \<and> 2 * I \<in> \<int>)"

definition axis_labels :: "string set" where
  "axis_labels = {''x'', ''y'', ''z'', ''+'', ''-'', ''0''}"

text \<open>The list \<open>matrices\<close> that the loop of \<open>from_axes\<close> builds when nothing is raised.\<close>

definition spin_matrices :: "real list \<Rightarrow> string list \<Rightarrow> cmat list" where
  "spin_matrices Is axes =
     map2 (\<lambda>I a. the (map_of axis_table a) (np_linspace I (- I) (nat (py_int (2 * I + 1))))) Is axes"

text \<open>\<open>isinstance(x, SpinOperator)\<close>: no class of the source extends \<open>SpinOperator\<close>.\<close>

definition isinstance_SpinOperator :: "pyval \<Rightarrow> bool" where
  "isinstance_SpinOperator x =
     (case x of PyOperator y \<Rightarrow> cls y = SpinOperatorC | PyNumber z \<Rightarrow> False | PyOther \<Rightarrow> False)"

section \<open>MuonExperiment\<close>





text \<open>
  The energies are a complex array (the diagonal of a complex matrix). numpy orders
  complex numbers lexicographically, by real part and then by imaginary part; \<open>np.amin\<close>
  and the comparison \<open>x > 0\<close> follow this order. \<open>np.amin\<close> of an empty array raises.
\<close>

definition np_less :: "complex \<Rightarrow> complex \<Rightarrow> bool" where
  "np_less a b = (Re a < Re b \<or> (Re a = Re b \<and> Im a < Im b))"
































text \<open>
  The products of \<open>np.kron\<close> are products of complex numbers held as pairs of IEEE doubles.
  \<open>fl64\<close> rounds a real number to the nearest double, ties to the even significand (53
  bits), as long as neither overflow nor underflow occurs; \<open>mul64\<close> is the complex product
  with every operation rounded. \<open>np_kron_with\<close> is \<open>np.kron\<close> with the product of two entries
  as a parameter, and \<open>kron_with\<close> the method \<open>kron\<close> on top of it: with the exact product
  they are \<open>np_kron\<close> and \<open>kron\<close>.
\<close>

definition round_half_even :: "real \<Rightarrow> int" where
  "round_half_even x =
     (let f = \<lfloor>x\<rfloor>; r = x - of_int f
      in if r < 1 / 2 then f else if 1 / 2 < r then f + 1 else if even f then f else f + 1)"

definition fl64 :: "real \<Rightarrow> real" where
  "fl64 x =
     (if x = 0 then 0
      else (let e = \<lfloor>log 2 \<bar>x\<bar>\<rfloor> - 52
            in of_int (round_half_even (x / 2 powr of_int e)) * 2 powr of_int e))"


definition vec_kron_with :: "(complex \<Rightarrow> complex \<Rightarrow> complex) \<Rightarrow> cvec \<Rightarrow> cvec \<Rightarrow> cvec" where
  "vec_kron_with mul u v = concat (map (\<lambda>a. map (\<lambda>b. mul a b) v) u)"

definition np_kron_with :: "(complex \<Rightarrow> complex \<Rightarrow> complex) \<Rightarrow> cmat \<Rightarrow> cmat \<Rightarrow> cmat" where
  "np_kron_with mul A B = concat (map (\<lambda>ra. map (\<lambda>rb. vec_kron_with mul ra rb) B) A)"


section \<open>Facts about arrays\<close>

lemma is_2d_row_length: "is_2d M \<Longrightarrow> i < length M \<Longrightarrow> length (M ! i) = ncols M"
  by (simp add: is_2d_def ncols_def list_all_length)

lemma length_mat_T [simp]: "length (mat_T M) = ncols M"
  by (simp add: mat_T_def)


lemma mat_T_nth: "i < ncols M \<Longrightarrow> j < nrows M \<Longrightarrow> mat_T M ! i ! j = M ! j ! i"
  by (simp add: mat_T_def nrows_def)

lemma length_mat_div [simp]: "length (mat_div M x) = length M"
  by (simp add: mat_div_def)












section \<open>Shapes\<close>

lemma squareI: "length M = n \<Longrightarrow> (\<And>i. i < n \<Longrightarrow> length (M ! i) = n) \<Longrightarrow> square n M"
  by (simp add: square_def list_all_length)

lemma square_row: "square n M \<Longrightarrow> i < n \<Longrightarrow> length (M ! i) = n"
  by (simp add: square_def list_all_length)

lemma square_length: "square n M \<Longrightarrow> length M = n"
  by (simp add: square_def)

lemma square_ncols: "square n M \<Longrightarrow> 0 < n \<Longrightarrow> ncols M = n"
  by (cases M) (simp_all add: square_def ncols_def)

lemma square_nrows: "square n M \<Longrightarrow> nrows M = n"
  by (simp add: square_def nrows_def)

lemma square_is_2d: "square n M \<Longrightarrow> 0 < n \<Longrightarrow> is_2d M"
  by (cases M) (auto simp add: square_def is_2d_def list_all_iff)

lemma is_2d_square:
  assumes "is_2d M" "nrows M = ncols M"
  shows "square (nrows M) M"
proof (rule squareI)
  show "length M = nrows M" by (simp add: nrows_def)
  fix i assume "i < nrows M"
  then show "length (M ! i) = nrows M"
    using is_2d_row_length [OF assms(1), of i] assms(2) by (simp add: nrows_def)
qed

lemma square_map_map: "square n M \<Longrightarrow> square n (map (map f) M)"
  by (simp add: square_def list_all_iff)

lemma square_mat_T: "square n M \<Longrightarrow> 0 < n \<Longrightarrow> square n (mat_T M)"
  by (rule squareI) (simp_all add: square_ncols mat_T_def square_length)

lemma square_map2:
  assumes "square n A" "square n B"
  shows "square n (map2 (map2 f) A B)"
proof (rule squareI)
  show "length (map2 (map2 f) A B) = n"
    using assms by (simp add: square_length)
  fix i assume "i < n"
  then show "length (map2 (map2 f) A B ! i) = n"
    using assms by (simp add: square_length square_row)
qed

lemma square_np_diag: "square (length v) (np_diag v)"
  by (rule squareI) (simp_all add: np_diag_def)

lemma square_np_eye: "square n (np_eye n)"
  by (rule squareI) (simp_all add: np_eye_def)

lemma square_np_diag_k1: "square (Suc (length v)) (np_diag_k1 v)"
  by (rule squareI) (simp_all add: np_diag_k1_def del: upt_Suc)

lemma length_np_cumsum [simp]: "length (np_cumsum xs) = length xs"
  by (induction xs) simp_all

lemma length_np_linspace [simp]: "length (np_linspace a b n) = n"
  by (simp add: np_linspace_def)

lemma square_Sp:
  assumes "mvals \<noteq> []"
  shows "square (length mvals) (Sp mvals)"
proof -
  let ?v = "map (\<lambda>c. complex_of_real (1 / 2 * sqrt c)) (butlast (np_cumsum (map (\<lambda>m. 2 * m) mvals)))"
  have "Suc (length ?v) = length mvals" using assms by simp
  then show ?thesis using square_np_diag_k1 [of ?v] by (simp only: Sp_def)
qed

lemma square_Sm: "mvals \<noteq> [] \<Longrightarrow> square (length mvals) (Sm mvals)"
  unfolding Sm_def by (rule square_mat_T [OF square_Sp]) simp_all

lemma square_Sx: "mvals \<noteq> [] \<Longrightarrow> square (length mvals) (Sx mvals)"
  unfolding Sx_def Let_def mat_add_def
  by (rule square_map2 [OF square_Sp square_mat_T [OF square_Sp]]) simp_all

lemma square_Sy: "mvals \<noteq> [] \<Longrightarrow> square (length mvals) (Sy mvals)"
  unfolding Sy_def Let_def mat_sub_def
  by (rule square_map_map [OF square_map2 [OF square_mat_T [OF square_Sp] square_Sp]]) simp_all

lemma square_Sz: "square (length mvals) (Sz mvals)"
  using square_np_diag [of "map of_real mvals"] by (simp add: Sz_def)

lemma square_S0: "square (length mvals) (S0 mvals)"
  by (simp add: S0_def square_np_eye)

lemma axis_table_square:
  assumes "map_of axis_table axis = Some S" "mvals \<noteq> []"
  shows "square (length mvals) (S mvals)"
proof -
  have "(axis, S) \<in> set axis_table" by (rule map_of_SomeD [OF assms(1)])
  then have "S = Sx \<or> S = Sy \<or> S = Sz \<or> S = Sp \<or> S = Sm \<or> S = S0"
    unfolding axis_table_def by auto
  then show ?thesis
    using assms(2) square_Sp square_Sm square_Sx square_Sy square_Sz square_S0 by blast
qed

lemma length_vec_kron [simp]: "length (vec_kron u v) = length u * length v"
  by (induction u) (simp_all add: vec_kron_def)

lemma length_np_kron [simp]: "length (np_kron A B) = length A * length B"
  by (induction A) (simp_all add: np_kron_def)

lemma square_np_kron:
  assumes "square n A" "square m B"
  shows "square (n * m) (np_kron A B)"
proof -
  have "\<forall>r \<in> set (np_kron A B). length r = n * m"
    using assms by (auto simp add: np_kron_def square_def list_all_iff)
  then show ?thesis using assms by (simp add: square_def list_all_iff)
qed

lemma square_foldl_np_kron:
  "square n A \<Longrightarrow> list_all2 (\<lambda>d M. square d M) ds ms \<Longrightarrow>
     square (n * prod_list ds) (foldl np_kron A ms)"
proof (induction ms arbitrary: n A ds)
  case Nil
  then show ?case by simp
next
  case (Cons M ms)
  then obtain d ds' where ds: "ds = d # ds'" "square d M" "list_all2 (\<lambda>d M. square d M) ds' ms"
    by (auto simp add: list_all2_Cons2)
  have "square (n * d * prod_list ds') (foldl np_kron (np_kron A M) ms)"
    by (rule Cons.IH [OF square_np_kron [OF Cons.prems(1) ds(2)] ds(3)])
  then show ?case by (simp add: ds(1) mult.assoc)
qed

section \<open>Claims about DensityOperator construction\<close>




section \<open>SpinOperator.from_axes: spin validation\<close>

lemma py_mod_half: "py_mod I (1 / 2) = (2 * I - of_int \<lfloor>2 * I\<rfloor>) / 2"
proof -
  have "I / (1 / 2) = 2 * I" by simp
  then show ?thesis unfolding py_mod_def by (simp only:) (simp add: field_simps)
qed

lemma py_mod_half_iff: "py_mod I (1 / 2) = 0 \<longleftrightarrow> 2 * I \<in> \<int>"
proof
  assume "py_mod I (1 / 2) = 0"
  then have "2 * I = of_int \<lfloor>2 * I\<rfloor>" unfolding py_mod_half by simp
  then show "2 * I \<in> \<int>" by (metis Ints_of_int)
next
  assume "2 * I \<in> \<int>"
  then obtain k :: int where "2 * I = of_int k" by (auto elim: Ints_cases)
  then have "2 * I - of_int \<lfloor>2 * I\<rfloor> = 0" by (metis floor_of_int diff_self)
  then show "py_mod I (1 / 2) = 0" by (simp only: py_mod_half div_0)
qed

lemma spin_check_iff: "(py_mod I (1 / 2) \<noteq> 0 \<or> I < 1 / 2) \<longleftrightarrow> \<not> valid_spin I"
  by (auto simp add: valid_spin_def py_mod_half_iff)

lemma valid_spin_dim:
  assumes "valid_spin I"
  shows "2 \<le> nat (py_int (2 * I + 1))" and "real (nat (py_int (2 * I + 1))) = 2 * I + 1"
proof -
  from assms obtain k :: int where k: "2 * I = of_int k" 
    by (auto simp add: valid_spin_def elim: Ints_cases)
  from assms have "1 \<le> 2 * I" by (simp add: valid_spin_def)
  with k have k1: "1 \<le> k" by linarith
  have "2 * I + 1 = of_int (k + 1)" using k by simp
  then have f: "\<lfloor>2 * I + 1\<rfloor> = k + 1" by (metis floor_of_int)
  have p: "py_int (2 * I + 1) = k + 1" using f k1 k by (simp add: py_int_def)
  show "2 \<le> nat (py_int (2 * I + 1))" using p k1 by simp
  show "real (nat (py_int (2 * I + 1))) = 2 * I + 1" using p k1 k by simp
qed

lemma sublist_axes:
  "sublist ''x'' ''xyz+-0''" "sublist ''y'' ''xyz+-0''" "sublist ''z'' ''xyz+-0''"
  "sublist ''+'' ''xyz+-0''" "sublist ''-'' ''xyz+-0''" "sublist ''0'' ''xyz+-0''"
  by code_simp+

lemma map_of_axis_table:
  "map_of axis_table ''x'' = Some Sx" "map_of axis_table ''y'' = Some Sy"
  "map_of axis_table ''z'' = Some Sz" "map_of axis_table ''+'' = Some Sp"
  "map_of axis_table ''-'' = Some Sm" "map_of axis_table ''0'' = Some S0"
  by (simp_all add: axis_table_def)

lemma axis_label_ok:
  assumes "axis \<in> axis_labels"
  shows "sublist axis ''xyz+-0''" and "\<exists>S. map_of axis_table axis = Some S"
  using assms sublist_axes map_of_axis_table unfolding axis_labels_def by auto

lemma from_axes_matrices_Cons:
  "from_axes_matrices ((I, axis) # rest) =
     (if \<not> valid_spin I then Inl InvalidSpinError
      else if \<not> sublist axis ''xyz+-0'' then Inl InvalidAxisError
      else (case map_of axis_table axis of
              None \<Rightarrow> Inl KeyError
            | Some S \<Rightarrow>
                (case from_axes_matrices rest of
                   Inl e \<Rightarrow> Inl e
                 | Inr ms \<Rightarrow>
                     Inr (S (np_linspace I (- I) (nat (py_int (2 * I + 1)))) # ms))))"
  by (simp only: from_axes_matrices.simps spin_check_iff)

declare from_axes_matrices.simps(2) [simp del]

lemma from_axes_matrices_labels:
  assumes "snd ` set xs \<subseteq> axis_labels"
  shows "from_axes_matrices xs =
    (if list_all valid_spin (map fst xs)
     then Inr (map (\<lambda>(I, a). the (map_of axis_table a)
                  (np_linspace I (- I) (nat (py_int (2 * I + 1))))) xs)
     else Inl InvalidSpinError)"
  using assms
proof (induction xs)
  case Nil
  then show ?case by simp
next
  case (Cons p xs)
  obtain I a where p: "p = (I, a)" by (cases p)
  from Cons.prems p have a: "a \<in> axis_labels" and rest: "snd ` set xs \<subseteq> axis_labels"
    by auto
  from axis_label_ok [OF a] obtain S where S: "sublist a ''xyz+-0''" "map_of axis_table a = Some S"
    by blast
  show ?case
    using S Cons.IH [OF rest] by (simp add: p from_axes_matrices_Cons)
qed

lemma spin_matrix_square:
  assumes "valid_spin I" "a \<in> axis_labels"
  shows "square (nat (py_int (2 * I + 1)))
           (the (map_of axis_table a) (np_linspace I (- I) (nat (py_int (2 * I + 1)))))"
proof -
  let ?n = "nat (py_int (2 * I + 1))"
  from axis_label_ok(2) [OF assms(2)] obtain S where S: "map_of axis_table a = Some S" by blast
  have "np_linspace I (- I) ?n \<noteq> []"
    using valid_spin_dim(1) [OF assms(1)] by (metis length_np_linspace list.size(3) not_numeral_le_zero)
  from axis_table_square [OF S this] show ?thesis by (simp add: S)
qed

lemma from_axes_valid:
  assumes "length Is = length axes" "Is \<noteq> []" "set axes \<subseteq> axis_labels"
    and "list_all valid_spin Is"
  shows "from_axes Is axes =
           Inr \<lparr>cls = SpinOperatorC, dim = map (\<lambda>I. nat (py_int (2 * I + 1))) Is,
                matrix = foldl np_kron (hd (spin_matrices Is axes)) (tl (spin_matrices Is axes))\<rparr>"
    and "square (prod_list (map (\<lambda>I. nat (py_int (2 * I + 1))) Is))
           (foldl np_kron (hd (spin_matrices Is axes)) (tl (spin_matrices Is axes)))"
    and "0 < prod_list (map (\<lambda>I. nat (py_int (2 * I + 1))) Is)"
proof -
  let ?d = "\<lambda>I. nat (py_int (2 * I + 1))"
  let ?sm = "\<lambda>(I, a). the (map_of axis_table a) (np_linspace I (- I) (?d I))"
  let ?xs = "zip Is axes"
  let ?ms = "spin_matrices Is axes"
  have ms_def: "?ms = map ?sm ?xs" by (simp add: spin_matrices_def)
  have fst: "map fst ?xs = Is" and snd: "map snd ?xs = axes" using assms(1) by simp_all
  have lab: "snd ` set ?xs \<subseteq> axis_labels"
    using assms(3) snd by (metis set_map)
  have ms: "from_axes_matrices ?xs = Inr ?ms"
    using from_axes_matrices_labels [OF lab] assms(4) by (simp add: fst ms_def)
  have sq: "list_all2 square (map ?d Is) ?ms"
  proof (rule list_all2_all_nthI)
    show "length (map ?d Is) = length ?ms" using assms(1) by (simp add: ms_def)
    fix i assume "i < length (map ?d Is)"
    then have i: "i < length Is" "i < length axes" using assms(1) by simp_all
    have v: "valid_spin (Is ! i)" using assms(4) i by (simp add: list_all_length)
    have a: "axes ! i \<in> axis_labels" using assms(3) i by (meson nth_mem subsetD)
    show "square (map ?d Is ! i) (?ms ! i)"
      using spin_matrix_square [OF v a] i by (simp add: ms_def)
  qed
  obtain I Is' where Is: "Is = I # Is'" using assms(2) by (cases Is) auto
  obtain a axes' where axes: "axes = a # axes'" using assms(1) Is by (cases axes) auto
  from sq have sq_hd: "square (?d I) (hd ?ms)" and sq_tl: "list_all2 square (map ?d Is') (tl ?ms)"
    unfolding spin_matrices_def Is axes by simp_all
  let ?M = "foldl np_kron (hd ?ms) (tl ?ms)"
  show sqM: "square (prod_list (map ?d Is)) ?M"
    using square_foldl_np_kron [OF sq_hd sq_tl] by (simp add: Is)
  show pos: "0 < prod_list (map ?d Is)"
  proof -
    have "\<forall>x \<in> set (map ?d Is). 0 < x"
      using assms(4) valid_spin_dim(1) by (fastforce simp add: list_all_iff)
    then show ?thesis by (induction Is) auto
  qed
  have "Operator_init SpinOperatorC ?M (Some (map ?d Is)) =
          Inr \<lparr>cls = SpinOperatorC, dim = map ?d Is, matrix = ?M\<rparr>"
    using square_is_2d [OF sqM pos] square_nrows [OF sqM] square_ncols [OF sqM pos]
    by (simp add: Operator_init_def)
  moreover have "\<not> (length Is \<noteq> length axes \<or> length Is = 0)" using assms(1,2) by auto
  ultimately show "from_axes Is axes = Inr \<lparr>cls = SpinOperatorC, dim = map ?d Is, matrix = ?M\<rparr>"
    unfolding from_axes_def Let_def by (simp only: if_False ms sum.case)
qed

lemma from_axes_invalid:
  assumes "length Is = length axes" "Is \<noteq> []" "set axes \<subseteq> axis_labels"
    and "\<not> list_all valid_spin Is"
  shows "from_axes Is axes = Inl InvalidSpinError"
proof -
  let ?xs = "zip Is axes"
  have fst: "map fst ?xs = Is" and snd: "map snd ?xs = axes" using assms(1) by simp_all
  have lab: "snd ` set ?xs \<subseteq> axis_labels"
    using assms(3) snd by (metis set_map)
  have "from_axes_matrices ?xs = Inl InvalidSpinError"
    using from_axes_matrices_labels [OF lab] assms(4) by (simp add: fst)
  moreover have "\<not> (length Is \<noteq> length axes \<or> length Is = 0)" using assms(1,2) by auto
  ultimately show ?thesis
    unfolding from_axes_def Let_def by (simp only: if_False sum.case)
qed

lemma from_axes_single:
  assumes "valid_spin I" "map_of axis_table a = Some S" "a \<in> axis_labels"
  shows "from_axes [I] [a] =
     Inr \<lparr>cls = SpinOperatorC, dim = [nat (py_int (2 * I + 1))],
          matrix = S (np_linspace I (- I) (nat (py_int (2 * I + 1))))\<rparr>"
  using from_axes_valid(1) [of "[I]" "[a]"] assms by (simp add: spin_matrices_def)

lemma mvals_valid:
  assumes "valid_spin I"
  shows "np_linspace I (- I) (nat (py_int (2 * I + 1))) =
           map (\<lambda>k. I - real k) [0..<nat (py_int (2 * I + 1))]"
proof -
  let ?n = "nat (py_int (2 * I + 1))"
  have n: "2 \<le> ?n" "real ?n = 2 * I + 1" using valid_spin_dim [OF assms] by simp_all
  then have n1: "real (?n - 1) = 2 * I" by (simp add: of_nat_diff)
  have I: "0 < I" using assms by (simp add: valid_spin_def)
  have step: "(- I - I) / real (?n - 1) = - 1" using n1 I by simp
  have "?n \<noteq> 1" using n(1) by simp
  then have "np_linspace I (- I) ?n = map (\<lambda>k. I + real k * ((- I - I) / real (?n - 1))) [0..<?n]"
    by (simp only: np_linspace_def if_False)
  also have "\<dots> = map (\<lambda>k. I - real k) [0..<?n]"
    by (simp only: step) simp
  finally show ?thesis .
qed

lemma diag_of_np_diag: "diag_of (np_diag v) = v"
proof (cases "v = []")
  case True
  then show ?thesis by (simp add: diag_of_def np_diag_def nrows_def)
next
  case False
  then have "ncols (np_diag v) = length v"
    using square_ncols [OF square_np_diag [of v]] by simp
  moreover have "nrows (np_diag v) = length v" by (simp add: np_diag_def nrows_def)
  ultimately have "diag_of (np_diag v) = map (\<lambda>i. np_diag v ! i ! i) [0..<length v]"
    by (simp add: diag_of_def)
  also have "\<dots> = map (\<lambda>i. v ! i) [0..<length v]"
    by (rule map_cong) (simp_all add: np_diag_def)
  also have "\<dots> = v" by (rule map_nth)
  finally show ?thesis .
qed

lemma axis_labels_mem:
  "''x'' \<in> axis_labels" "''y'' \<in> axis_labels" "''z'' \<in> axis_labels"
  "''+'' \<in> axis_labels" "''-'' \<in> axis_labels" "''0'' \<in> axis_labels"
  by (simp_all add: axis_labels_def)

text \<open>
  Claim C6, as amended. With spin and axis lists of one non-zero length and axis labels
  among x, y, z, +, -, 0, \<open>from_axes\<close> fails with the spin-validation error exactly when a
  spin value is not a multiple of 1/2 that is at least 1/2, and otherwise returns a
  \<open>SpinOperator\<close> whose dimension tuple is \<open>2*I+1\<close> for each spin. The value 0.3 fails.
\<close>

theorem from_axes_spin_validation:
  assumes "length Is = length axes" and "Is \<noteq> []" and "set axes \<subseteq> axis_labels"
  shows "(from_axes Is axes = Inl InvalidSpinError \<longleftrightarrow> \<not> list_all valid_spin Is) \<and>
         (list_all valid_spin Is \<longrightarrow>
            (\<exists>M. from_axes Is axes =
                Inr \<lparr>cls = SpinOperatorC, dim = map (\<lambda>I. nat \<lfloor>2 * I + 1\<rfloor>) Is, matrix = M\<rparr>))"
proof (cases "list_all valid_spin Is")
  case True
  have "map (\<lambda>I. nat (py_int (2 * I + 1))) Is = map (\<lambda>I. nat \<lfloor>2 * I + 1\<rfloor>) Is"
    using True by (intro map_cong refl) (auto simp add: list_all_iff py_int_def valid_spin_def)
  then show ?thesis using from_axes_valid(1) [OF assms True] True by simp
next
  case False
  then show ?thesis using from_axes_invalid [OF assms False] by simp
qed

lemma not_valid_spin_03: "\<not> valid_spin (3 / 10)"
proof
  assume "valid_spin (3 / 10)"
  then have "2 * (3 / 10 :: real) \<in> \<int>" by (simp only: valid_spin_def)
  then obtain k :: int where "2 * (3 / 10 :: real) = of_int k" by (auto elim: Ints_cases)
  then have "real_of_int (5 * k) = real_of_int 3" by simp
  then have "5 * k = 3" by (simp only: of_int_eq_iff)
  then show False by presburger
qed

theorem from_axes_spin_validation_witness:
  "length [3 / 10 :: real] = length [''x''] \<and> [3 / 10 :: real] \<noteq> [] \<and>
   set [''x''] \<subseteq> axis_labels \<and> \<not> list_all valid_spin [3 / 10] \<and>
   from_axes [3 / 10] [''x''] = Inl InvalidSpinError \<and>
   list_all valid_spin [1 / 2, 1] \<and>
   (\<exists>M. from_axes [1 / 2, 1] [''x'', ''z''] = Inr \<lparr>cls = SpinOperatorC, dim = [2, 3], matrix = M\<rparr>)"
proof -
  have h: "length [3 / 10 :: real] = length [''x'']" "[3 / 10 :: real] \<noteq> []"
    "set [''x''] \<subseteq> axis_labels"
    by (simp_all add: axis_labels_def)
  have n: "\<not> list_all valid_spin [3 / 10]" using not_valid_spin_03 by simp
  have a: "from_axes [3 / 10] [''x''] = Inl InvalidSpinError"
    using from_axes_spin_validation [OF h] n by blast
  have g: "length [1 / 2, 1 :: real] = length [''x'', ''z'']" "[1 / 2, 1 :: real] \<noteq> []"
    "set [''x'', ''z''] \<subseteq> axis_labels"
    by (simp_all add: axis_labels_def)
  have v: "list_all valid_spin [1 / 2, 1]" by (simp add: valid_spin_def)
  have "\<exists>M. from_axes [1 / 2, 1] [''x'', ''z''] =
      Inr \<lparr>cls = SpinOperatorC, dim = map (\<lambda>I. nat \<lfloor>2 * I + 1\<rfloor>) [1 / 2, 1 :: real], matrix = M\<rparr>"
    using from_axes_spin_validation [OF g] v by blast
  then have b: "\<exists>M. from_axes [1 / 2, 1] [''x'', ''z''] =
      Inr \<lparr>cls = SpinOperatorC, dim = [2, 3], matrix = M\<rparr>" by simp
  show ?thesis using h n a v b by blast
qed

text \<open>
  Claim C6 as stated fails at the spin value 0, a non-negative multiple of 1/2 that the
  guard \<open>I < 0.5\<close> rejects.
\<close>

theorem from_axes_spin_zero_counterexample:
  "(0 :: real) \<le> 0 \<and> 2 * (0 :: real) \<in> \<int> \<and> from_axes [0] [''x''] = Inl InvalidSpinError"
  by (simp add: from_axes_def from_axes_matrices_Cons valid_spin_def)

section \<open>SpinOperator.from_axes: the spin algebra\<close>

lemma mat_scale_commute: "mat_scale M x = map (map (\<lambda>a. x * a)) M"
  by (simp add: mat_scale_def mult.commute)

text \<open>
  Claim C9. For every valid spin value, the single-spin operators built by \<open>from_axes\<close>
  satisfy: the matrix of the lowering operator is the transpose of the matrix of the
  raising operator; the x operator equals raising plus lowering; the y operator equals i
  times lowering minus raising (with the operators' own \<open>+\<close>, \<open>-\<close>, \<open>*\<close> and \<open>==\<close>); the z
  operator is diagonal, with diagonal I, I-1, ..., -I.
\<close>

theorem spin_operator_algebra:
  assumes "valid_spin I"
  shows "\<exists>sp sm sx sy sz a d e.
    from_axes [I] [''+''] = Inr sp \<and> from_axes [I] [''-''] = Inr sm \<and>
    from_axes [I] [''x''] = Inr sx \<and> from_axes [I] [''y''] = Inr sy \<and>
    from_axes [I] [''z''] = Inr sz \<and>
    matrix sm = mat_T (matrix sp) \<and>
    Operator_add sp (PyOperator sm) = Inr a \<and> Operator_eq sx (PyOperator a) \<and>
    Operator_sub sm (PyOperator sp) = Inr d \<and> Operator_rmul d (PyNumber \<i>) = Inr e \<and>
    Operator_eq sy (PyOperator e) \<and>
    matrix sz = np_diag (map (\<lambda>k. complex_of_real (I - real k)) [0..<nat \<lfloor>2 * I + 1\<rfloor>]) \<and>
    diag_of (matrix sz) = map (\<lambda>k. complex_of_real (I - real k)) [0..<nat \<lfloor>2 * I + 1\<rfloor>]"
proof -
  let ?n = "nat (py_int (2 * I + 1))"
  let ?mv = "np_linspace I (- I) ?n"
  let ?op = "\<lambda>S. \<lparr>cls = SpinOperatorC, dim = [?n], matrix = S ?mv\<rparr>"
  note fs = from_axes_single [OF assms]
  have p: "from_axes [I] [''+''] = Inr (?op Sp)"
    by (rule fs [OF map_of_axis_table(4) axis_labels_mem(4)])
  have m: "from_axes [I] [''-''] = Inr (?op Sm)"
    by (rule fs [OF map_of_axis_table(5) axis_labels_mem(5)])
  have x: "from_axes [I] [''x''] = Inr (?op Sx)"
    by (rule fs [OF map_of_axis_table(1) axis_labels_mem(1)])
  have y: "from_axes [I] [''y''] = Inr (?op Sy)"
    by (rule fs [OF map_of_axis_table(2) axis_labels_mem(2)])
  have z: "from_axes [I] [''z''] = Inr (?op Sz)"
    by (rule fs [OF map_of_axis_table(3) axis_labels_mem(3)])
  have t: "matrix (?op Sm) = mat_T (matrix (?op Sp))" by (simp add: Sm_def)
  have a: "Operator_add (?op Sp) (PyOperator (?op Sm)) = Inr (?op Sx)"
    by (simp add: Operator_add_def clone_def Sx_def Sm_def Let_def)
  have xa: "Operator_eq (?op Sx) (PyOperator (?op Sx))" by (simp add: Operator_eq_def)
  let ?d = "\<lparr>cls = SpinOperatorC, dim = [?n], matrix = mat_sub (Sm ?mv) (Sp ?mv)\<rparr>"
  have d: "Operator_sub (?op Sm) (PyOperator (?op Sp)) = Inr ?d"
    by (simp add: Operator_sub_def clone_def)
  have e: "Operator_rmul ?d (PyNumber \<i>) = Inr (?op Sy)"
    by (simp add: Operator_rmul_def Operator_mul_def clone_def Sy_def Sm_def Let_def
        mat_scale_commute)
  have nn: "?n = nat \<lfloor>2 * I + 1\<rfloor>" using assms by (simp add: py_int_def valid_spin_def)
  have zm: "matrix (?op Sz) = np_diag (map (\<lambda>k. complex_of_real (I - real k)) [0..<nat \<lfloor>2 * I + 1\<rfloor>])"
    using mvals_valid [OF assms] nn by (simp add: Sz_def comp_def)
  have zd: "diag_of (matrix (?op Sz)) = map (\<lambda>k. complex_of_real (I - real k)) [0..<nat \<lfloor>2 * I + 1\<rfloor>]"
    unfolding zm by (rule diag_of_np_diag)
  have ya: "Operator_eq (?op Sy) (PyOperator (?op Sy))" by (simp add: Operator_eq_def)
  show ?thesis
    apply (intro exI conjI)
                apply (rule p)
               apply (rule m)
              apply (rule x)
             apply (rule y)
            apply (rule z)
           apply (rule t)
          apply (rule a)
         apply (rule xa)
        apply (rule d)
       apply (rule e)
      apply (rule ya)
     apply (rule zm)
    apply (rule zd)
    done
qed

lemma valid_spin_half: "valid_spin (1 / 2)"
  by (simp add: valid_spin_def)

theorem spin_operator_algebra_witness:
  "valid_spin (1 / 2) \<and>
   (\<exists>sp sm sx sy sz a d e.
    from_axes [1 / 2] [''+''] = Inr sp \<and> from_axes [1 / 2] [''-''] = Inr sm \<and>
    from_axes [1 / 2] [''x''] = Inr sx \<and> from_axes [1 / 2] [''y''] = Inr sy \<and>
    from_axes [1 / 2] [''z''] = Inr sz \<and>
    matrix sm = mat_T (matrix sp) \<and>
    Operator_add sp (PyOperator sm) = Inr a \<and> Operator_eq sx (PyOperator a) \<and>
    Operator_sub sm (PyOperator sp) = Inr d \<and> Operator_rmul d (PyNumber \<i>) = Inr e \<and>
    Operator_eq sy (PyOperator e) \<and>
    matrix sz = [[1 / 2, 0], [0, - 1 / 2]] \<and>
    diag_of (matrix sz) = [1 / 2, - 1 / 2])"
proof -
  have n: "nat \<lfloor>2 * (1 / 2 :: real) + 1\<rfloor> = 2" by simp
  have u: "[0..<2] = [0, Suc 0]" by (simp add: upt_rec)
  have v: "map (\<lambda>k. complex_of_real (1 / 2 - real k)) [0..<nat \<lfloor>2 * (1 / 2 :: real) + 1\<rfloor>]
             = [1 / 2, - 1 / 2]"
    unfolding n u by simp
  have w: "np_diag [1 / 2, - 1 / 2] = [[1 / 2, 0], [0, - 1 / 2]]"
    by (simp add: np_diag_def u)
  from spin_operator_algebra [OF valid_spin_half]
  show ?thesis unfolding v w using valid_spin_half by simp
qed

section \<open>DensityOperator.expectation\<close>

text \<open>
  Claim C10. \<open>expectation\<close> raises the type error for every argument that is not an
  instance of \<open>SpinOperator\<close>, whatever the dimension tuples and the matrices are: the test
  of the class comes before the comparison of the dimensions and before any arithmetic.
\<close>

theorem expectation_type_check:
  "\<not> isinstance_SpinOperator x \<Longrightarrow> expectation rho x = Inl TypeError"
  by (cases x) (simp_all add: expectation_def isinstance_SpinOperator_def)

theorem expectation_type_check_witness:
  "\<not> isinstance_SpinOperator
       (PyOperator \<lparr>cls = OperatorC, dim = [2], matrix = [[1 / 2, 0], [0, - 1 / 2]]\<rparr>) \<and>
   expectation \<lparr>cls = DensityOperatorC, dim = [2], matrix = [[1 / 2, 0], [0, 1 / 2]]\<rparr>
       (PyOperator \<lparr>cls = OperatorC, dim = [2], matrix = [[1 / 2, 0], [0, - 1 / 2]]\<rparr>)
     = Inl TypeError \<and>
   expectation \<lparr>cls = DensityOperatorC, dim = [2], matrix = [[1 / 2, 0], [0, 1 / 2]]\<rparr>
       (PyOperator \<lparr>cls = OperatorC, dim = [3], matrix = [[1, 0, 0], [0, 0, 0], [0, 0, - 1]]\<rparr>)
     = Inl TypeError"
proof -
  have a: "\<not> isinstance_SpinOperator
       (PyOperator \<lparr>cls = OperatorC, dim = [2], matrix = [[1 / 2, 0], [0, - 1 / 2]]\<rparr>)"
    by (simp add: isinstance_SpinOperator_def)
  have b: "\<not> isinstance_SpinOperator
       (PyOperator \<lparr>cls = OperatorC, dim = [3], matrix = [[1, 0, 0], [0, 0, 0], [0, 0, - 1]]\<rparr>)"
    by (simp add: isinstance_SpinOperator_def)
  show ?thesis
    using a expectation_type_check [OF a] expectation_type_check [OF b] by blast
qed

lemma map2_nth:
  "length xs = length ys \<Longrightarrow> map2 f xs ys = map (\<lambda>i. f (xs ! i) (ys ! i)) [0..<length xs]"
  by (rule nth_equalityI) simp_all

lemma sum_list_upt_cong:
  "(\<And>i. i < n \<Longrightarrow> f i = g i) \<Longrightarrow> (\<Sum>i\<leftarrow>[0..<n]. f i) = (\<Sum>i\<leftarrow>[0..<n]. g i)"
  by (rule arg_cong [where f = sum_list], rule map_cong) simp_all

lemma mat_sum_mul_elem_T:
  assumes A: "square n A" and B: "square n B" and n: "0 < n"
  shows "mat_sum (mat_mul_elem A (mat_T B)) = np_trace (np_dot A B)"
proof -
  have lA: "length A = n" and lB: "length B = n" using A B by (simp_all add: square_length)
  have cB: "ncols B = n" by (rule square_ncols [OF B n])
  have TB: "square n (mat_T B)" by (rule square_mat_T [OF B n])
  have lT: "length (mat_T B) = n" using cB by simp
  have rows: "mat_mul_elem A (mat_T B) = map (\<lambda>i. map2 (*) (A ! i) (mat_T B ! i)) [0..<n]"
    unfolding mat_mul_elem_def using map2_nth [of A "mat_T B" "map2 (*)"] lA lT by simp
  have row: "map2 (*) (A ! i) (mat_T B ! i) = map (\<lambda>j. A ! i ! j * B ! j ! i) [0..<n]"
    if i: "i < n" for i
  proof -
    have "map2 (*) (A ! i) (mat_T B ! i) = map (\<lambda>j. A ! i ! j * mat_T B ! i ! j) [0..<n]"
      using map2_nth [of "A ! i" "mat_T B ! i" "(*)"] square_row [OF A i] square_row [OF TB i]
      by simp
    also have "\<dots> = map (\<lambda>j. A ! i ! j * B ! j ! i) [0..<n]"
      using i cB lB by (intro map_cong refl) (simp add: mat_T_nth nrows_def)
    finally show ?thesis .
  qed
  have lhs: "mat_sum (mat_mul_elem A (mat_T B)) = (\<Sum>i\<leftarrow>[0..<n]. \<Sum>j\<leftarrow>[0..<n]. A ! i ! j * B ! j ! i)"
    unfolding mat_sum_def rows
    by (simp add: comp_def) (rule sum_list_upt_cong, simp add: row)
  have D: "square n (np_dot A B)"
    by (rule squareI) (simp_all add: np_dot_def lA cB)
  have "np_trace (np_dot A B) = (\<Sum>i\<leftarrow>[0..<n]. np_dot A B ! i ! i)"
    using square_nrows [OF D] square_ncols [OF D n] by (simp add: np_trace_def)
  also have "\<dots> = (\<Sum>i\<leftarrow>[0..<n]. \<Sum>j\<leftarrow>[0..<n]. A ! i ! j * B ! j ! i)"
    by (rule sum_list_upt_cong) (simp add: np_dot_def lA cB square_row [OF A])
  finally show ?thesis using lhs by simp
qed

text \<open>
  Claim C2, as amended. For a well-formed density operator and a well-formed
  \<open>SpinOperator\<close>: with identical dimension tuples \<open>expectation\<close> returns the sum of the
  entrywise product of the operator's matrix with the transposed density matrix, which
  equals the trace of the matrix product; the sum is returned as the complex number it
  is. With different dimension tuples it fails with the incompatible-dimension error.
\<close>

theorem expectation_sum_trace:
  assumes "wf_operator rho" and "wf_operator op" and "cls op = SpinOperatorC"
  shows "(dim op = dim rho \<longrightarrow>
            expectation rho (PyOperator op) =
              Inr (mat_sum (mat_mul_elem (matrix op) (mat_T (matrix rho)))) \<and>
            mat_sum (mat_mul_elem (matrix op) (mat_T (matrix rho))) =
              np_trace (np_dot (matrix op) (matrix rho))) \<and>
         (dim op \<noteq> dim rho \<longrightarrow>
            expectation rho (PyOperator op) = Inl IncompatibleDimensionError)"
proof (cases "dim op = dim rho")
  case True
  have "square (prod_list (dim rho)) (matrix op)" "square (prod_list (dim rho)) (matrix rho)"
    "0 < prod_list (dim rho)"
    using assms(1,2) True by (simp_all add: wf_operator_def)
  from mat_sum_mul_elem_T [OF this]
  show ?thesis using True assms(3) by (simp add: expectation_def)
next
  case False
  then show ?thesis using assms(3) by (simp add: expectation_def)
qed

lemma upt_2: "[0..<2] = [0, Suc 0]"
  by (simp add: upt_rec)

theorem expectation_sum_trace_witness:
  "wf_operator \<lparr>cls = DensityOperatorC, dim = [2], matrix = [[1 / 2, - \<i> / 2], [\<i> / 2, 1 / 2]]\<rparr> \<and>
   wf_operator \<lparr>cls = SpinOperatorC, dim = [2], matrix = [[0, - \<i> / 2], [\<i> / 2, 0]]\<rparr> \<and>
   expectation \<lparr>cls = DensityOperatorC, dim = [2], matrix = [[1 / 2, - \<i> / 2], [\<i> / 2, 1 / 2]]\<rparr>
     (PyOperator \<lparr>cls = SpinOperatorC, dim = [2], matrix = [[0, - \<i> / 2], [\<i> / 2, 0]]\<rparr>)
     = Inr (1 / 2) \<and>
   np_trace (np_dot [[0, - \<i> / 2], [\<i> / 2, 0]] [[1 / 2, - \<i> / 2], [\<i> / 2, 1 / 2]]) = 1 / 2"
proof -
  let ?rho = "\<lparr>cls = DensityOperatorC, dim = [2], matrix = [[1 / 2, - \<i> / 2], [\<i> / 2, 1 / 2]]\<rparr>"
  let ?op = "\<lparr>cls = SpinOperatorC, dim = [2], matrix = [[0, - \<i> / 2], [\<i> / 2, 0]]\<rparr>"
  have w1: "wf_operator ?rho" by (simp add: wf_operator_def square_def)
  have w2: "wf_operator ?op" by (simp add: wf_operator_def square_def)
  have c: "cls ?op = SpinOperatorC" by simp
  have d: "dim ?op = dim ?rho" by simp
  have v: "mat_sum (mat_mul_elem (matrix ?op) (mat_T (matrix ?rho))) = 1 / 2"
    by (simp add: mat_sum_def mat_mul_elem_def mat_T_def ncols_def upt_2)
  from expectation_sum_trace [OF w1 w2 c] d
  have "expectation ?rho (PyOperator ?op) =
          Inr (mat_sum (mat_mul_elem (matrix ?op) (mat_T (matrix ?rho))))"
    and "mat_sum (mat_mul_elem (matrix ?op) (mat_T (matrix ?rho))) =
          np_trace (np_dot (matrix ?op) (matrix ?rho))"
    by blast+
  then show ?thesis using w1 w2 v by simp
qed

lemma mvals_half: "np_linspace (1 / 2) (- (1 / 2)) 2 = [1 / 2, - 1 / 2]"
  by (simp add: np_linspace_def upt_2)

lemma Sp_half: "Sp [1 / 2, - 1 / 2] = [[0, 1 / 2], [0, 0]]"
  by (simp add: Sp_def np_diag_k1_def upt_2 upt_rec [of 0 "Suc (Suc 0)"])

lemma from_axes_half_plus:
  "from_axes [1 / 2] [''+''] = Inr \<lparr>cls = SpinOperatorC, dim = [2], matrix = [[0, 1 / 2], [0, 0]]\<rparr>"
proof -
  have n: "nat (py_int (2 * (1 / 2) + 1)) = 2" by (simp add: py_int_def)
  show ?thesis
    using from_axes_single [OF valid_spin_half map_of_axis_table(4) axis_labels_mem(4)]
    unfolding n mvals_half Sp_half .
qed

text \<open>
  Claim C2 as stated fails: the value returned is not made real. For the density operator
  of a spin 1/2 polarized along y and the raising operator \<open>from_axes(0.5, '+')\<close> the
  value returned is \<open>0.25j\<close>.
\<close>

theorem expectation_complex_counterexample:
  "DensityOperator_init [[1 / 2, - \<i> / 2], [\<i> / 2, 1 / 2]] None =
     Inr \<lparr>cls = DensityOperatorC, dim = [2], matrix = [[1 / 2, - \<i> / 2], [\<i> / 2, 1 / 2]]\<rparr> \<and>
   from_axes [1 / 2] [''+''] =
     Inr \<lparr>cls = SpinOperatorC, dim = [2], matrix = [[0, 1 / 2], [0, 0]]\<rparr> \<and>
   expectation \<lparr>cls = DensityOperatorC, dim = [2], matrix = [[1 / 2, - \<i> / 2], [\<i> / 2, 1 / 2]]\<rparr>
     (PyOperator \<lparr>cls = SpinOperatorC, dim = [2], matrix = [[0, 1 / 2], [0, 0]]\<rparr>)
     = Inr (\<i> / 4) \<and>
   Im (\<i> / 4) \<noteq> 0"
proof -
  have a: "DensityOperator_init [[1 / 2, - \<i> / 2], [\<i> / 2, 1 / 2]] None =
     Inr \<lparr>cls = DensityOperatorC, dim = [2], matrix = [[1 / 2, - \<i> / 2], [\<i> / 2, 1 / 2]]\<rparr>"
    by (simp add: DensityOperator_init_def Operator_init_def normalize_def trace_def
      is_hermitian_def Let_def is_2d_def nrows_def ncols_def np_trace_def mat_div_def
      mat_T_def mat_conj_def upt_2)
  have c: "expectation \<lparr>cls = DensityOperatorC, dim = [2], matrix = [[1 / 2, - \<i> / 2], [\<i> / 2, 1 / 2]]\<rparr>
     (PyOperator \<lparr>cls = SpinOperatorC, dim = [2], matrix = [[0, 1 / 2], [0, 0]]\<rparr>)
     = Inr (\<i> / 4)"
    by (simp add: expectation_def mat_sum_def mat_mul_elem_def mat_T_def ncols_def upt_2)
  show ?thesis using a from_axes_half_plus c by simp
qed

section \<open>DensityOperator.partial_trace\<close>

lemma upt_4: "[0..<4] = [0, 1, 2, 3]"
  by (simp add: upt_rec)

lemma kron_rho_x_mixed:
  "np_kron [[1 / 2, 1 / 2], [1 / 2, 1 / 2]] [[1 / 2, 0], [0, 1 / 2]] =
     [[1 / 4, 0, 1 / 4, 0], [0, 1 / 4, 0, 1 / 4], [1 / 4, 0, 1 / 4, 0], [0, 1 / 4, 0, 1 / 4]]"
  by (simp add: np_kron_def vec_kron_def)

lemma DensityOperator_init_rho_x_mixed:
  "DensityOperator_init
     [[1 / 4, 0, 1 / 4, 0], [0, 1 / 4, 0, 1 / 4], [1 / 4, 0, 1 / 4, 0], [0, 1 / 4, 0, 1 / 4]]
     (Some [2, 2]) =
   Inr \<lparr>cls = DensityOperatorC, dim = [2, 2],
        matrix = [[1 / 4, 0, 1 / 4, 0], [0, 1 / 4, 0, 1 / 4], [1 / 4, 0, 1 / 4, 0], [0, 1 / 4, 0, 1 / 4]]\<rparr>"
  by (simp add: DensityOperator_init_def Operator_init_def normalize_def trace_def
      is_hermitian_def Let_def is_2d_def nrows_def ncols_def np_trace_def mat_div_def
      mat_T_def mat_conj_def upt_4)

lemma partial_trace_first:
  "partial_trace \<lparr>cls = DensityOperatorC, dim = [2, 2],
        matrix = [[1 / 4, 0, 1 / 4, 0], [0, 1 / 4, 0, 1 / 4], [1 / 4, 0, 1 / 4, 0], [0, 1 / 4, 0, 1 / 4]]\<rparr> [0]
   = Inr \<lparr>cls = DensityOperatorC, dim = [2], matrix = [[1, 0], [0, 1]]\<rparr>"
  by (simp add: partial_trace_def summed_entry_def Let_def upt_4 upt_2)

lemma partial_trace_all:
  "partial_trace \<lparr>cls = DensityOperatorC, dim = [2, 2],
        matrix = [[1 / 4, 0, 1 / 4, 0], [0, 1 / 4, 0, 1 / 4], [1 / 4, 0, 1 / 4, 0], [0, 1 / 4, 0, 1 / 4]]\<rparr> [0, 1]
   = Inl TypeError"
  by (simp add: partial_trace_def Let_def)

text \<open>
  Claim C3: the code at a failing input. The state of two spins 1/2, the first polarized
  along x and the second fully mixed, is the Kronecker product of \<open>[[1/2, 1/2], [1/2, 1/2]]\<close>
  and \<open>[[1/2, 0], [0, 1/2]]\<close>; \<open>DensityOperator\<close> accepts it with dimension tuple (2, 2)
  and trace 1. \<open>partial_trace([0])\<close> returns dimension tuple (2) and the matrix
  \<open>[[1, 0], [0, 1]]\<close>, whose trace is 2: the sum over the row axis and the column axis of
  the first spin adds the off-diagonal blocks too, and nothing is normalized afterwards.
\<close>

theorem partial_trace_not_normalized:
  "np_kron [[1 / 2, 1 / 2], [1 / 2, 1 / 2]] [[1 / 2, 0], [0, 1 / 2]] =
     [[1 / 4, 0, 1 / 4, 0], [0, 1 / 4, 0, 1 / 4], [1 / 4, 0, 1 / 4, 0], [0, 1 / 4, 0, 1 / 4]] \<and>
   DensityOperator_init
     [[1 / 4, 0, 1 / 4, 0], [0, 1 / 4, 0, 1 / 4], [1 / 4, 0, 1 / 4, 0], [0, 1 / 4, 0, 1 / 4]]
     (Some [2, 2]) =
   Inr \<lparr>cls = DensityOperatorC, dim = [2, 2],
        matrix = [[1 / 4, 0, 1 / 4, 0], [0, 1 / 4, 0, 1 / 4], [1 / 4, 0, 1 / 4, 0], [0, 1 / 4, 0, 1 / 4]]\<rparr> \<and>
   partial_trace \<lparr>cls = DensityOperatorC, dim = [2, 2],
        matrix = [[1 / 4, 0, 1 / 4, 0], [0, 1 / 4, 0, 1 / 4], [1 / 4, 0, 1 / 4, 0], [0, 1 / 4, 0, 1 / 4]]\<rparr> [0]
     = Inr \<lparr>cls = DensityOperatorC, dim = [2], matrix = [[1, 0], [0, 1]]\<rparr> \<and>
   np_trace [[1, 0], [0, 1]] = 2"
proof -
  have "np_trace [[1, 0], [0, 1]] = 2"
    by (simp add: np_trace_def nrows_def ncols_def upt_2)
  then show ?thesis
    using kron_rho_x_mixed DensityOperator_init_rho_x_mixed partial_trace_first by simp
qed

section \<open>MuonExperiment: the thermal starting state\<close>





lemma np_less_of_real [simp]: "np_less (of_real a) (of_real b) \<longleftrightarrow> a < b"
  by (simp add: np_less_def)

lemma np_less_zero_of_real [simp]: "np_less 0 (of_real b) \<longleftrightarrow> 0 < b"
  using np_less_of_real [of 0 b] by simp


















section \<open>MuonExperiment.set_starting_state: the muon axis\<close>































section \<open>MuonExperiment.run_experiment: the average over orientations\<close>












section \<open>Operator.kron\<close>




lemma vec_kron_with_Nil [simp]: "vec_kron_with mul [] v = []"
  by (simp add: vec_kron_with_def)

lemma vec_kron_with_Cons [simp]:
  "vec_kron_with mul (a # u) v = map (\<lambda>b. mul a b) v @ vec_kron_with mul u v"
  by (simp add: vec_kron_with_def)




lemma np_kron_with_Nil [simp]: "np_kron_with mul [] B = []"
  by (simp add: np_kron_with_def)

lemma np_kron_with_Cons [simp]:
  "np_kron_with mul (ra # A) B = map (vec_kron_with mul ra) B @ np_kron_with mul A B"
  by (simp add: np_kron_with_def)







lemma fl64_zero [simp]: "fl64 0 = 0"
  by (simp add: fl64_def)









end
